theory Spec2Isabelle
  imports Main "HOL-Library.Sublist"
begin

section \<open>The heuristic URL scorer of the vulnerabilities scanner\<close>

text \<open>
  The development follows \<^verbatim>\<open>performComprehensiveScan\<close> and \<^verbatim>\<open>handleScan\<close> in the richer
  variant of the \<^verbatim>\<open>URLScanner\<close> component (the one with a score and a list of checks),
  and \<^verbatim>\<open>validateURL\<close> and \<^verbatim>\<open>handleScan\<close> in the simpler variant,
  \<^verbatim>\<open>src/components/URLScanner.tsx\<close>.

  A JavaScript string is a sequence of code units. It is modelled as a \<^typ>\<open>string\<close>, whose
  characters are read as the code units below 256 (ASCII and Latin-1), so \<^const>\<open>length\<close> is
  \<^verbatim>\<open>.length\<close>. The score, the simulated numbers and the times are \<^typ>\<open>int\<close>.
\<close>

subsection \<open>Strings: \<^verbatim>\<open>includes\<close> and \<^verbatim>\<open>toLowerCase\<close>\<close>

text \<open>\<^verbatim>\<open>s.includes(p)\<close>: \<^verbatim>\<open>p\<close> occurs in \<^verbatim>\<open>s\<close> as a contiguous run, at some position
  (\<open>includes\<close> is a keyword of the theory language, hence the suffix).\<close>

fun includes_str :: "string \<Rightarrow> string \<Rightarrow> bool" where
  "includes_str [] p = (p = [])"
| "includes_str (c # s) p = (prefix p (c # s) \<or> includes_str s p)"

text \<open>
  \<^verbatim>\<open>toLowerCase\<close> on code units below 256: the letters A to Z, and the Latin-1 capitals
  U+00C0 to U+00DE without the multiplication sign U+00D7, move up by 32; every other
  code unit stays.
\<close>

definition lowerChar :: "char \<Rightarrow> char" where
  "lowerChar c =
     (let n = (of_char c :: nat)
      in if (65 \<le> n \<and> n \<le> 90) \<or> (192 \<le> n \<and> n \<le> 222 \<and> n \<noteq> 215)
         then char_of (n + 32) else c)"

definition toLowerCase :: "string \<Rightarrow> string" where
  "toLowerCase s = map lowerChar s"

subsection \<open>Data model\<close>

datatype check_status = Pass | Fail | Warning

datatype impact_level = Low | Medium | High

datatype scan_status = Safe | Suspicious | Unsafe

text \<open>\<^verbatim>\<open>interface SecurityCheck\<close>; the field \<^verbatim>\<open>status\<close> is \<open>cstatus\<close> here, apart from the
  \<^verbatim>\<open>status\<close> of a scan result.\<close>

record SecurityCheck =
  name :: string
  cstatus :: check_status
  description :: string
  impact :: impact_level

text \<open>
  What the scanner reads of the object \<^verbatim>\<open>new URL(inputUrl)\<close>: \<^verbatim>\<open>hostname\<close>,
  \<^verbatim>\<open>protocol\<close> (with its colon, as in \<^verbatim>\<open>'https:'\<close>) and \<^verbatim>\<open>port\<close>. The platform gives
  \<^verbatim>\<open>port\<close> as the empty string or as the decimal digits of a number, so it is an optional
  number here: \<open>None\<close> is the empty string.
\<close>

record URL =
  hostname :: string
  protocol :: string
  port :: "nat option"

text \<open>The \<^verbatim>\<open>metadata\<close> object of a result; its \<^verbatim>\<open>protocol\<close> and \<^verbatim>\<open>port\<close> are prefixed
  with \<open>m\<close>.\<close>

record Metadata =
  responseTime :: int
  domain :: string
  mprotocol :: string
  mport :: "nat option"
  redirects :: int

record ScanResult =
  url :: string
  status :: scan_status
  score :: int
  checks :: "SecurityCheck list"
  metadata :: Metadata
  timestamp :: int

text \<open>The only exception the scanner can meet: \<^verbatim>\<open>new URL\<close> throws a \<^verbatim>\<open>TypeError\<close> on a
  string that is not an absolute URL.\<close>

datatype error = TypeError

text \<open>
  The three expressions built on \<^verbatim>\<open>Math.random()\<close> are inputs of the model, one field for
  the value of each: \<^verbatim>\<open>Math.random() > 0.3\<close>, \<^verbatim>\<open>Math.floor(Math.random() * 1000) + 200\<close>
  and \<^verbatim>\<open>Math.floor(Math.random() * 3)\<close>.
\<close>

record Simulated =
  simHeaders :: bool
  simResponseTime :: int
  simRedirects :: int

subsection \<open>The rule tables\<close>

definition suspiciousDomains :: "string list" where
  "suspiciousDomains =
     [''bit.ly'', ''tinyurl.com'', ''t.co'', ''goo.gl'', ''localhost'', ''127.0.0.1'']"

definition isDomainSuspicious :: "string \<Rightarrow> bool" where
  "isDomainSuspicious host =
     list_ex (\<lambda>suspicious. includes_str host suspicious) suspiciousDomains"

definition phishingPatterns :: "string list" where
  "phishingPatterns =
     [''secure-update'', ''verify-account'', ''suspended-account'', ''urgent-action'']"

definition hasPhishingPattern :: "string \<Rightarrow> bool" where
  "hasPhishingPattern inputUrl =
     list_ex (\<lambda>pattern. includes_str (toLowerCase inputUrl) pattern) phishingPatterns"

definition maliciousExtensions :: "string list" where
  "maliciousExtensions = [''.exe'', ''.scr'', ''.bat'', ''.cmd'', ''.pif'']"

definition hasMaliciousExt :: "string \<Rightarrow> bool" where
  "hasMaliciousExt inputUrl =
     list_ex (\<lambda>ext. includes_str (toLowerCase inputUrl) ext) maliciousExtensions"

subsection \<open>\<^verbatim>\<open>performComprehensiveScan\<close>\<close>

text \<open>
  The platform's URL constructor is the parameter \<open>newURL\<close>: \<open>None\<close> where it throws.

  \<open>scanChecks\<close> is the \<^verbatim>\<open>try\<close>/\<^verbatim>\<open>catch\<close> statement: it returns the variables \<^verbatim>\<open>checks\<close>
  and \<^verbatim>\<open>score\<close> as they stand after it. Each \<^verbatim>\<open>checks.push\<close> appends, each
  \<^verbatim>\<open>score -=\<close> subtracts, in the order of the source. The constructor is the first
  statement of the \<^verbatim>\<open>try\<close> block and the only one that can throw, so the \<^verbatim>\<open>catch\<close> block
  runs on the empty list.
\<close>

definition scanChecks ::
  "(string \<Rightarrow> URL option) \<Rightarrow> Simulated \<Rightarrow> string \<Rightarrow> SecurityCheck list \<times> int" where
  "scanChecks newURL sim inputUrl =
     (case newURL inputUrl of
        None \<Rightarrow>
          ([\<lparr>name = ''URL Format'', cstatus = Fail,
             description = ''Invalid URL format'', impact = High\<rparr>], 0)
      | Some urlObj \<Rightarrow>
          (let domain = hostname urlObj;
               proto = protocol urlObj;
               (checks, score) = ([], 100);
               \<comment> \<open>HTTPS Check\<close>
               (checks, score) =
                 (if proto = ''https:''
                  then (checks @ [\<lparr>name = ''HTTPS Protocol'', cstatus = Pass,
                          description = ''Site uses secure HTTPS connection'',
                          impact = High\<rparr>], score)
                  else (checks @ [\<lparr>name = ''HTTPS Protocol'', cstatus = Fail,
                          description = ''Site does not use secure HTTPS connection'',
                          impact = High\<rparr>], score - 30));
               \<comment> \<open>Domain Reputation Check\<close>
               (checks, score) =
                 (if isDomainSuspicious domain
                  then (checks @ [\<lparr>name = ''Domain Reputation'', cstatus = Warning,
                          description = ''Domain is a URL shortener or potentially suspicious'',
                          impact = Medium\<rparr>], score - 20)
                  else (checks @ [\<lparr>name = ''Domain Reputation'', cstatus = Pass,
                          description = ''Domain appears legitimate'',
                          impact = Medium\<rparr>], score));
               \<comment> \<open>URL Length Analysis\<close>
               (checks, score) =
                 (if length inputUrl > 200
                  then (checks @ [\<lparr>name = ''URL Length'', cstatus = Warning,
                          description = ''Unusually long URL detected (potential obfuscation)'',
                          impact = Low\<rparr>], score - 10)
                  else (checks @ [\<lparr>name = ''URL Length'', cstatus = Pass,
                          description = ''URL length is within normal range'',
                          impact = Low\<rparr>], score));
               \<comment> \<open>Phishing Patterns\<close>
               (checks, score) =
                 (if hasPhishingPattern inputUrl
                  then (checks @ [\<lparr>name = ''Phishing Indicators'', cstatus = Fail,
                          description = ''Contains common phishing keywords'',
                          impact = High\<rparr>], score - 25)
                  else (checks @ [\<lparr>name = ''Phishing Indicators'', cstatus = Pass,
                          description = ''No common phishing patterns detected'',
                          impact = High\<rparr>], score));
               \<comment> \<open>Malicious Extensions\<close>
               (checks, score) =
                 (if hasMaliciousExt inputUrl
                  then (checks @ [\<lparr>name = ''File Type Safety'', cstatus = Fail,
                          description = ''URL points to potentially dangerous file type'',
                          impact = High\<rparr>], score - 35)
                  else (checks @ [\<lparr>name = ''File Type Safety'', cstatus = Pass,
                          description = ''No dangerous file extensions detected'',
                          impact = Medium\<rparr>], score));
               \<comment> \<open>SSL Certificate Simulation\<close>
               checks =
                 (if proto = ''https:''
                  then checks @ [\<lparr>name = ''SSL Certificate'', cstatus = Pass,
                          description = ''Valid SSL certificate (simulated check)'',
                          impact = High\<rparr>]
                  else checks @ [\<lparr>name = ''SSL Certificate'', cstatus = Fail,
                          description = ''No SSL certificate available'',
                          impact = High\<rparr>]);
               \<comment> \<open>Security Headers Simulation\<close>
               hasSecurityHeaders = simHeaders sim;
               checks = checks @ [\<lparr>name = ''Security Headers'',
                          cstatus = (if hasSecurityHeaders then Pass else Warning),
                          description = (if hasSecurityHeaders
                            then ''Essential security headers detected''
                            else ''Missing important security headers (CSP, HSTS)''),
                          impact = Medium\<rparr>];
               score = (if \<not> hasSecurityHeaders then score - 15 else score)
           in (checks, score)))"

text \<open>
  The whole function. After the \<^verbatim>\<open>try\<close>/\<^verbatim>\<open>catch\<close> the status is read off the score as it
  stands, and the \<^verbatim>\<open>return\<close> statement builds the result, with \<^verbatim>\<open>Math.max(0, score)\<close> as
  its score. The metadata call \<^verbatim>\<open>new URL(inputUrl)\<close> again, outside the \<^verbatim>\<open>try\<close> block:
  where the constructor throws, the function throws.
\<close>

definition performComprehensiveScan ::
  "(string \<Rightarrow> URL option) \<Rightarrow> Simulated \<Rightarrow> int \<Rightarrow> string \<Rightarrow> error + ScanResult" where
  "performComprehensiveScan newURL sim now inputUrl =
     (let (checks, score) = scanChecks newURL sim inputUrl;
          status = (if score \<ge> 80 then Safe
                    else if score \<ge> 50 then Suspicious
                    else Unsafe)
      in case newURL inputUrl of
           None \<Rightarrow> Inl TypeError
         | Some urlObj \<Rightarrow>
             Inr \<lparr>url = inputUrl,
                  status = status,
                  score = max 0 score,
                  checks = checks,
                  metadata = \<lparr>responseTime = simResponseTime sim,
                              domain = hostname urlObj,
                              mprotocol = protocol urlObj,
                              mport = port urlObj,
                              redirects = simRedirects sim\<rparr>,
                  timestamp = now\<rparr>)"

text \<open>
  The values of the platform's URL constructor on the strings used as concrete inputs
  below. The first five are absolute URLs; the last two have no scheme, and there the
  constructor throws. The table stands for the constructor on these seven strings only.
\<close>

definition urlSamples :: "string \<Rightarrow> URL option" where
  "urlSamples s =
     (if s = ''https://example.com''
        then Some \<lparr>hostname = ''example.com'', protocol = ''https:'', port = None\<rparr>
      else if s = ''http://bit.ly/abc''
        then Some \<lparr>hostname = ''bit.ly'', protocol = ''http:'', port = None\<rparr>
      else if s = ''https://10.0.0.1/''
        then Some \<lparr>hostname = ''10.0.0.1'', protocol = ''https:'', port = None\<rparr>
      else if s = ''https://example.com/setup''
        then Some \<lparr>hostname = ''example.com'', protocol = ''https:'', port = None\<rparr>
      else if s = ''https://example.com/setup.EXE''
        then Some \<lparr>hostname = ''example.com'', protocol = ''https:'', port = None\<rparr>
      else if s = ''not a url'' then None
      else if s = ''example.com'' then None
      else None)"

subsection \<open>The denylist as the specification words it\<close>

text \<open>
  The specification lists nine substrings for the Domain Reputation rule: the six of
  \<open>suspiciousDomains\<close> and the three private-range prefixes. This second predicate follows
  the specification's words, to be compared with \<open>isDomainSuspicious\<close>.
\<close>

definition specDenylist :: "string list" where
  "specDenylist =
     [''bit.ly'', ''tinyurl.com'', ''t.co'', ''goo.gl'', ''localhost'', ''127.0.0.1'',
      ''192.168.'', ''10.'', ''172.'']"

definition specDomainSuspicious :: "string \<Rightarrow> bool" where
  "specDomainSuspicious host = list_ex (\<lambda>d. includes_str host d) specDenylist"

subsection \<open>The scan history\<close>











subsection \<open>The simpler variant\<close>












section \<open>Properties\<close>

subsection \<open>Auxiliary facts\<close>

text \<open>\<open>includes_str\<close> is the contiguous-sublist relation of the library.\<close>

lemma includes_str_sublist: "includes_str s p \<longleftrightarrow> sublist p s"
  by (induction s) (simp_all add: sublist_Cons_right)

lemma includes_str_iff: "includes_str s p \<longleftrightarrow> (\<exists>a b. s = a @ p @ b)"
  by (simp add: includes_str_sublist sublist_def)

text \<open>Where the constructor throws, so does the scan; where it returns, the scan returns
  the record built from the two variables of \<open>scanChecks\<close>.\<close>

lemma scan_throws:
  "newURL s = None \<Longrightarrow> performComprehensiveScan newURL sim now s = Inl TypeError"
  by (simp add: performComprehensiveScan_def Let_def split: prod.splits)

lemma scan_returns:
  "newURL s = Some u \<Longrightarrow>
   performComprehensiveScan newURL sim now s =
     Inr \<lparr>url = s,
          status = (if snd (scanChecks newURL sim s) \<ge> 80 then Safe
                    else if snd (scanChecks newURL sim s) \<ge> 50 then Suspicious
                    else Unsafe),
          score = max 0 (snd (scanChecks newURL sim s)),
          checks = fst (scanChecks newURL sim s),
          metadata = \<lparr>responseTime = simResponseTime sim, domain = hostname u,
                      mprotocol = protocol u, mport = port u,
                      redirects = simRedirects sim\<rparr>,
          timestamp = now\<rparr>"
  by (simp add: performComprehensiveScan_def Let_def split: prod.splits)

text \<open>The score after the \<^verbatim>\<open>try\<close> block: 100 less the penalty of each rule that fired.\<close>

lemma scanChecks_score:
  "newURL s = Some u \<Longrightarrow>
   snd (scanChecks newURL sim s) =
     100 - (if protocol u = ''https:'' then 0 else 30)
         - (if isDomainSuspicious (hostname u) then 20 else 0)
         - (if length s > 200 then 10 else 0)
         - (if hasPhishingPattern s then 25 else 0)
         - (if hasMaliciousExt s then 35 else 0)
         - (if simHeaders sim then 0 else 15)"
  by (simp add: scanChecks_def Let_def)

lemma scanChecks_names:
  "newURL s = Some u \<Longrightarrow>
   map name (fst (scanChecks newURL sim s)) =
     [''HTTPS Protocol'', ''Domain Reputation'', ''URL Length'', ''Phishing Indicators'',
      ''File Type Safety'', ''SSL Certificate'', ''Security Headers'']"
  by (simp add: scanChecks_def Let_def)

lemma scanChecks_cstatus:
  "newURL s = Some u \<Longrightarrow>
   map cstatus (fst (scanChecks newURL sim s)) =
     [if protocol u = ''https:'' then Pass else Fail,
      if isDomainSuspicious (hostname u) then Warning else Pass,
      if length s > 200 then Warning else Pass,
      if hasPhishingPattern s then Fail else Pass,
      if hasMaliciousExt s then Fail else Pass,
      if protocol u = ''https:'' then Pass else Fail,
      if simHeaders sim then Pass else Warning]"
  by (simp add: scanChecks_def Let_def)

text \<open>Evaluation of the scan at the inputs of \<open>urlSamples\<close> unfolds these definitions.\<close>

lemmas eval_defs =
  performComprehensiveScan_def scanChecks_def urlSamples_def Let_def
  isDomainSuspicious_def suspiciousDomains_def hasPhishingPattern_def phishingPatterns_def
  hasMaliciousExt_def maliciousExtensions_def toLowerCase_def lowerChar_def

subsection \<open>Unparseable input\<close>

text \<open>
  Claim C1 says that the scan returns a result for every input string and never throws,
  a parse failure being kept as a failing check. The code does not do so: on the input
  \<^verbatim>\<open>not a url\<close> the constructor throws inside the \<^verbatim>\<open>try\<close> block, the \<^verbatim>\<open>catch\<close> block
  records the failing check, and the \<^verbatim>\<open>return\<close> statement calls the constructor again
  for the metadata, outside the \<^verbatim>\<open>try\<close> block. The scan throws a \<^verbatim>\<open>TypeError\<close>, whatever
  the simulated values and the time are.
\<close>

theorem unparseable_input_throws:
  "performComprehensiveScan urlSamples sim now ''not a url'' = Inl TypeError"
  by (simp add: scan_throws urlSamples_def)

text \<open>
  Claim C2 says that on an unparseable input the scan returns score 0, status unsafe and
  a single failing high-impact check named URL Format. On the input \<^verbatim>\<open>example.com\<close> the
  \<^verbatim>\<open>try\<close>/\<^verbatim>\<open>catch\<close> statement leaves exactly that check and the score 0 in its variables,
  and the scan then throws instead of returning them.
\<close>

theorem unparseable_result_lost:
  "scanChecks urlSamples sim ''example.com'' =
     ([\<lparr>name = ''URL Format'', cstatus = Fail,
        description = ''Invalid URL format'', impact = High\<rparr>], 0)
   \<and> performComprehensiveScan urlSamples sim now ''example.com'' = Inl TypeError"
  by (simp add: scan_throws scanChecks_def urlSamples_def)

subsection \<open>Score range and status\<close>

text \<open>
  Claim C4: whenever the scan returns a result, its score lies between 0 and 100, and its
  status is determined by that score: safe exactly when the score is at least 80,
  suspicious exactly when it is at least 50 and below 80, unsafe exactly when it is
  below 50.
\<close>

theorem score_range_status:
  assumes "performComprehensiveScan newURL sim now s = Inr r"
  shows "0 \<le> score r \<and> score r \<le> 100
       \<and> (status r = Safe \<longleftrightarrow> score r \<ge> 80)
       \<and> (status r = Suspicious \<longleftrightarrow> 50 \<le> score r \<and> score r < 80)
       \<and> (status r = Unsafe \<longleftrightarrow> score r < 50)"
proof (cases "newURL s")
  case None
  with assms show ?thesis by (simp add: scan_throws)
next
  case (Some u)
  define raw where "raw = snd (scanChecks newURL sim s)"
  have le: "raw \<le> 100"
    unfolding raw_def scanChecks_score [of newURL s u sim, OF Some] by simp
  from assms have sc: "score r = max 0 raw"
    and st: "status r =
      (if raw \<ge> 80 then Safe else if raw \<ge> 50 then Suspicious else Unsafe)"
    unfolding scan_returns [of newURL s u sim now, OF Some] raw_def by auto
  from le show ?thesis unfolding sc st by (simp add: max_def)
qed

theorem score_range_status_witness:
  "performComprehensiveScan urlSamples
     \<lparr>simHeaders = False, simResponseTime = 734, simRedirects = 2\<rparr> 0 ''http://bit.ly/abc''
   = Inr \<lparr>url = ''http://bit.ly/abc'', status = Unsafe, score = 35,
        checks =
          [\<lparr>name = ''HTTPS Protocol'', cstatus = Fail,
            description = ''Site does not use secure HTTPS connection'', impact = High\<rparr>,
           \<lparr>name = ''Domain Reputation'', cstatus = Warning,
            description = ''Domain is a URL shortener or potentially suspicious'',
            impact = Medium\<rparr>,
           \<lparr>name = ''URL Length'', cstatus = Pass,
            description = ''URL length is within normal range'', impact = Low\<rparr>,
           \<lparr>name = ''Phishing Indicators'', cstatus = Pass,
            description = ''No common phishing patterns detected'', impact = High\<rparr>,
           \<lparr>name = ''File Type Safety'', cstatus = Pass,
            description = ''No dangerous file extensions detected'', impact = Medium\<rparr>,
           \<lparr>name = ''SSL Certificate'', cstatus = Fail,
            description = ''No SSL certificate available'', impact = High\<rparr>,
           \<lparr>name = ''Security Headers'', cstatus = Warning,
            description = ''Missing important security headers (CSP, HSTS)'',
            impact = Medium\<rparr>],
        metadata =
          \<lparr>responseTime = 734, domain = ''bit.ly'', mprotocol = ''http:'',
           mport = None, redirects = 2\<rparr>,
        timestamp = 0\<rparr>
   \<and> (0::int) \<le> 35 \<and> (35::int) \<le> 100
   \<and> (Unsafe = Safe \<longleftrightarrow> (35::int) \<ge> 80)
   \<and> (Unsafe = Suspicious \<longleftrightarrow> (50::int) \<le> 35 \<and> (35::int) < 80)
   \<and> (Unsafe = Unsafe \<longleftrightarrow> (35::int) < 50)"
proof -
  let ?sim = "\<lparr>simHeaders = False, simResponseTime = 734, simRedirects = 2\<rparr>"
  obtain r where h: "performComprehensiveScan urlSamples ?sim 0 ''http://bit.ly/abc'' = Inr r"
    and r: "r = \<lparr>url = ''http://bit.ly/abc'', status = Unsafe, score = 35,
        checks =
          [\<lparr>name = ''HTTPS Protocol'', cstatus = Fail,
            description = ''Site does not use secure HTTPS connection'', impact = High\<rparr>,
           \<lparr>name = ''Domain Reputation'', cstatus = Warning,
            description = ''Domain is a URL shortener or potentially suspicious'',
            impact = Medium\<rparr>,
           \<lparr>name = ''URL Length'', cstatus = Pass,
            description = ''URL length is within normal range'', impact = Low\<rparr>,
           \<lparr>name = ''Phishing Indicators'', cstatus = Pass,
            description = ''No common phishing patterns detected'', impact = High\<rparr>,
           \<lparr>name = ''File Type Safety'', cstatus = Pass,
            description = ''No dangerous file extensions detected'', impact = Medium\<rparr>,
           \<lparr>name = ''SSL Certificate'', cstatus = Fail,
            description = ''No SSL certificate available'', impact = High\<rparr>,
           \<lparr>name = ''Security Headers'', cstatus = Warning,
            description = ''Missing important security headers (CSP, HSTS)'',
            impact = Medium\<rparr>],
        metadata =
          \<lparr>responseTime = 734, domain = ''bit.ly'', mprotocol = ''http:'',
           mport = None, redirects = 2\<rparr>,
        timestamp = 0\<rparr>"
    by (simp add: eval_defs)
  from score_range_status [OF h] h show ?thesis unfolding r by simp
qed

text \<open>The rows of \<open>urlSamples\<close> used by the concrete instances, and what the rule tables
  say about them.\<close>

lemma samples_example:
  "urlSamples ''https://example.com'' =
     Some \<lparr>hostname = ''example.com'', protocol = ''https:'', port = None\<rparr>"
  by (simp add: urlSamples_def)

lemma samples_bitly:
  "urlSamples ''http://bit.ly/abc'' =
     Some \<lparr>hostname = ''bit.ly'', protocol = ''http:'', port = None\<rparr>"
  by (simp add: urlSamples_def)

lemma samples_setup:
  "urlSamples ''https://example.com/setup'' =
     Some \<lparr>hostname = ''example.com'', protocol = ''https:'', port = None\<rparr>"
  "urlSamples ''https://example.com/setup.EXE'' =
     Some \<lparr>hostname = ''example.com'', protocol = ''https:'', port = None\<rparr>"
  by (simp_all add: urlSamples_def)

lemma clean_example:
  "\<not> isDomainSuspicious ''example.com''"
  "\<not> hasPhishingPattern ''https://example.com''"
  "\<not> hasMaliciousExt ''https://example.com''"
  by (simp_all add: eval_defs)

lemma clean_setup:
  "\<not> hasPhishingPattern ''https://example.com/setup''"
  "\<not> hasMaliciousExt ''https://example.com/setup''"
  by (simp_all add: eval_defs)

lemma lower_EXE: "toLowerCase ''.EXE'' = ''.exe''"
  by code_simp

lemma flags_bitly:
  "isDomainSuspicious ''bit.ly''"
  "\<not> hasPhishingPattern ''http://bit.ly/abc''"
  "\<not> hasMaliciousExt ''http://bit.ly/abc''"
  by (simp_all add: eval_defs)

text \<open>The simulated values reach the checks and the score through the header flag only.\<close>

lemma scanChecks_headers_only:
  assumes "simHeaders sim = simHeaders sim'"
  shows "scanChecks newURL sim s = scanChecks newURL sim' s"
  unfolding scanChecks_def assms by (rule refl)

subsection \<open>The seven checks\<close>

text \<open>
  Claim C10: for every input that parses as a URL, the scan returns a check list of
  exactly seven entries, named HTTPS Protocol, Domain Reputation, URL Length, Phishing
  Indicators, File Type Safety, SSL Certificate and Security Headers, in this order,
  whatever the input contains.
\<close>

theorem seven_checks_fixed_order:
  assumes "newURL s = Some u"
  shows "\<exists>r. performComprehensiveScan newURL sim now s = Inr r
           \<and> length (checks r) = 7
           \<and> map name (checks r) =
               [''HTTPS Protocol'', ''Domain Reputation'', ''URL Length'',
                ''Phishing Indicators'', ''File Type Safety'', ''SSL Certificate'',
                ''Security Headers'']"
proof -
  have n: "map name (fst (scanChecks newURL sim s)) =
               [''HTTPS Protocol'', ''Domain Reputation'', ''URL Length'',
                ''Phishing Indicators'', ''File Type Safety'', ''SSL Certificate'',
                ''Security Headers'']"
    by (rule scanChecks_names [of newURL s u sim, OF assms])
  have "length (map name (fst (scanChecks newURL sim s))) = 7"
    unfolding n by simp
  then have l: "length (fst (scanChecks newURL sim s)) = 7" by simp
  show ?thesis
    unfolding scan_returns [of newURL s u sim now, OF assms] using n l by simp
qed

theorem seven_checks_fixed_order_witness:
  "urlSamples ''https://example.com'' =
      Some \<lparr>hostname = ''example.com'', protocol = ''https:'', port = None\<rparr>
   \<and> (\<exists>r. performComprehensiveScan urlSamples
           \<lparr>simHeaders = True, simResponseTime = 200, simRedirects = 0\<rparr> 0
           ''https://example.com'' = Inr r
         \<and> length (checks r) = 7
         \<and> map name (checks r) =
               [''HTTPS Protocol'', ''Domain Reputation'', ''URL Length'',
                ''Phishing Indicators'', ''File Type Safety'', ''SSL Certificate'',
                ''Security Headers''])"
  using seven_checks_fixed_order [of urlSamples "''https://example.com''"
      "\<lparr>hostname = ''example.com'', protocol = ''https:'', port = None\<rparr>"
      "\<lparr>simHeaders = True, simResponseTime = 200, simRedirects = 0\<rparr>" 0]
    samples_example
  by simp

subsection \<open>Clean HTTPS URLs\<close>

text \<open>
  Claim C5: for every input that parses as a URL with the scheme https, whose host
  contains no denylist substring, whose length is at most 200 and which contains no
  phishing keyword and no dangerous extension, the scan returns a score of at least 80;
  when the Security Headers rule passes, the score is exactly 100 and the status is safe.
  The denylist of the hypothesis is that of the code; a host free of the nine substrings
  of the specification is free of these six. The witness is the example of the claim,
  \<^verbatim>\<open>https://example.com\<close>.
\<close>

theorem clean_https_url_safe:
  assumes "newURL s = Some u"
    and "protocol u = ''https:''"
    and "\<not> isDomainSuspicious (hostname u)"
    and "length s \<le> 200"
    and "\<not> hasPhishingPattern s"
    and "\<not> hasMaliciousExt s"
  shows "\<exists>r. performComprehensiveScan newURL sim now s = Inr r
           \<and> score r \<ge> 80
           \<and> (simHeaders sim \<longrightarrow> score r = 100 \<and> status r = Safe)"
  unfolding scan_returns [of newURL s u sim now, OF assms(1)]
    scanChecks_score [of newURL s u sim, OF assms(1)]
  using assms(2-) by simp

theorem clean_https_url_safe_witness:
  "urlSamples ''https://example.com'' =
      Some \<lparr>hostname = ''example.com'', protocol = ''https:'', port = None\<rparr>
   \<and> \<not> isDomainSuspicious ''example.com''
   \<and> length ''https://example.com'' \<le> 200
   \<and> \<not> hasPhishingPattern ''https://example.com''
   \<and> \<not> hasMaliciousExt ''https://example.com''
   \<and> (\<exists>r. performComprehensiveScan urlSamples
           \<lparr>simHeaders = True, simResponseTime = 200, simRedirects = 0\<rparr> 0
           ''https://example.com'' = Inr r
         \<and> score r = 100 \<and> status r = Safe)"
  using clean_https_url_safe [of urlSamples "''https://example.com''"
      "\<lparr>hostname = ''example.com'', protocol = ''https:'', port = None\<rparr>"
      "\<lparr>simHeaders = True, simResponseTime = 200, simRedirects = 0\<rparr>" 0]
    samples_example clean_example
  by auto

subsection \<open>The example \<^verbatim>\<open>http://bit.ly/abc\<close>\<close>

text \<open>
  Claim C6 says that, the Security Headers rule passing, the scan of
  \<^verbatim>\<open>http://bit.ly/abc\<close> yields score 50 and status unsafe. The score is 50, and the status
  is not unsafe: the code tests \<^verbatim>\<open>score >= 50\<close> for suspicious.
\<close>

theorem bitly_not_unsafe:
  "map_sum id score (performComprehensiveScan urlSamples
       \<lparr>simHeaders = True, simResponseTime = 200, simRedirects = 0\<rparr> 0 ''http://bit.ly/abc'')
     = Inr 50
   \<and> map_sum id status (performComprehensiveScan urlSamples
       \<lparr>simHeaders = True, simResponseTime = 200, simRedirects = 0\<rparr> 0 ''http://bit.ly/abc'')
     \<noteq> Inr Unsafe"
  by (simp add: eval_defs)

text \<open>
  Claim C6 as amended: the Security Headers rule passing, the scan of
  \<^verbatim>\<open>http://bit.ly/abc\<close> yields score 50 (30 off for the scheme, 20 off for the domain)
  and status suspicious, whatever the simulated response time, redirect count and the
  time are.
\<close>

theorem headers_pass_bitly:
  "map_sum id score (performComprehensiveScan urlSamples
       \<lparr>simHeaders = True, simResponseTime = rt, simRedirects = rd\<rparr> now ''http://bit.ly/abc'')
     = Inr 50
   \<and> map_sum id status (performComprehensiveScan urlSamples
       \<lparr>simHeaders = True, simResponseTime = rt, simRedirects = rd\<rparr> now ''http://bit.ly/abc'')
     = Inr Suspicious"
  by (simp add: eval_defs)

subsection \<open>Determinism up to the header flag\<close>

text \<open>
  Claim C9: two scans of the same input in which the Security Headers flag has the same
  value agree on the score, the status and the whole list of checks (so on the name,
  status and impact of every check), or both throw; the simulated response time and
  redirect count, and the time of the scan, have no influence on them.
\<close>

theorem verdict_deterministic:
  assumes "simHeaders sim = simHeaders sim'"
  shows "map_sum id (\<lambda>r. (score r, status r, checks r))
           (performComprehensiveScan newURL sim now s)
       = map_sum id (\<lambda>r. (score r, status r, checks r))
           (performComprehensiveScan newURL sim' now' s)"
proof (cases "newURL s")
  case None
  then show ?thesis by (simp add: scan_throws)
next
  case (Some u)
  show ?thesis
    unfolding scan_returns [of newURL s u _ _, OF Some]
      scanChecks_headers_only [of sim sim' newURL s, OF assms]
    by simp
qed

theorem verdict_deterministic_witness:
  "simHeaders \<lparr>simHeaders = False, simResponseTime = 200, simRedirects = 0\<rparr>
     = simHeaders \<lparr>simHeaders = False, simResponseTime = 1199, simRedirects = 2\<rparr>
   \<and> map_sum id (\<lambda>r. (score r, status r, checks r))
        (performComprehensiveScan urlSamples
           \<lparr>simHeaders = False, simResponseTime = 200, simRedirects = 0\<rparr> 0
           ''https://example.com'')
     = map_sum id (\<lambda>r. (score r, status r, checks r))
        (performComprehensiveScan urlSamples
           \<lparr>simHeaders = False, simResponseTime = 1199, simRedirects = 2\<rparr> 5000
           ''https://example.com'')
   \<and> map_sum id score (performComprehensiveScan urlSamples
           \<lparr>simHeaders = False, simResponseTime = 1199, simRedirects = 2\<rparr> 5000
           ''https://example.com'') = Inr 85"
proof -
  have "map_sum id score (performComprehensiveScan urlSamples
           \<lparr>simHeaders = False, simResponseTime = 1199, simRedirects = 2\<rparr> 5000
           ''https://example.com'') = Inr 85"
    by (simp add: eval_defs)
  then show ?thesis
    using verdict_deterministic
      [of "\<lparr>simHeaders = False, simResponseTime = 200, simRedirects = 0\<rparr>"
        "\<lparr>simHeaders = False, simResponseTime = 1199, simRedirects = 2\<rparr>" urlSamples 0
        "''https://example.com''" 5000]
    by simp
qed

subsection \<open>The Domain Reputation rule\<close>

text \<open>
  Claim C3 says that the Domain Reputation rule warns and takes 20 off when the host
  contains one of nine substrings, the private-range prefixes \<^verbatim>\<open>192.168.\<close>, \<^verbatim>\<open>10.\<close> and
  \<^verbatim>\<open>172.\<close> among them. The list of the code has six entries and none of these three:
  the host \<^verbatim>\<open>10.0.0.1\<close> contains a denylist substring of the specification, and the
  scan of \<^verbatim>\<open>https://10.0.0.1/\<close> passes the rule and keeps the score 100.
\<close>

theorem private_range_host_passes:
  "specDomainSuspicious ''10.0.0.1''
   \<and> performComprehensiveScan urlSamples
       \<lparr>simHeaders = True, simResponseTime = 200, simRedirects = 0\<rparr> 0 ''https://10.0.0.1/''
     = Inr \<lparr>url = ''https://10.0.0.1/'', status = Safe, score = 100,
        checks =
          [\<lparr>name = ''HTTPS Protocol'', cstatus = Pass,
            description = ''Site uses secure HTTPS connection'', impact = High\<rparr>,
           \<lparr>name = ''Domain Reputation'', cstatus = Pass,
            description = ''Domain appears legitimate'', impact = Medium\<rparr>,
           \<lparr>name = ''URL Length'', cstatus = Pass,
            description = ''URL length is within normal range'', impact = Low\<rparr>,
           \<lparr>name = ''Phishing Indicators'', cstatus = Pass,
            description = ''No common phishing patterns detected'', impact = High\<rparr>,
           \<lparr>name = ''File Type Safety'', cstatus = Pass,
            description = ''No dangerous file extensions detected'', impact = Medium\<rparr>,
           \<lparr>name = ''SSL Certificate'', cstatus = Pass,
            description = ''Valid SSL certificate (simulated check)'', impact = High\<rparr>,
           \<lparr>name = ''Security Headers'', cstatus = Pass,
            description = ''Essential security headers detected'', impact = Medium\<rparr>],
        metadata =
          \<lparr>responseTime = 200, domain = ''10.0.0.1'', mprotocol = ''https:'',
           mport = None, redirects = 0\<rparr>,
        timestamp = 0\<rparr>"
  by (simp add: eval_defs specDomainSuspicious_def specDenylist_def)

text \<open>
  Claim C3 as amended: for every input that parses as a URL, the second check is the
  Domain Reputation check; its status is warning, and 20 is taken off the score before
  the final clamp at 0, when the host contains one of the six substrings \<^verbatim>\<open>bit.ly\<close>,
  \<^verbatim>\<open>tinyurl.com\<close>, \<^verbatim>\<open>t.co\<close>, \<^verbatim>\<open>goo.gl\<close>, \<^verbatim>\<open>localhost\<close>, \<^verbatim>\<open>127.0.0.1\<close>; otherwise its status
  is pass and nothing is taken off.
\<close>

theorem domain_reputation_rule:
  assumes "newURL s = Some u"
  shows "\<exists>r. performComprehensiveScan newURL sim now s = Inr r
     \<and> name (checks r ! 1) = ''Domain Reputation''
     \<and> cstatus (checks r ! 1) = (if isDomainSuspicious (hostname u) then Warning else Pass)
     \<and> score r = max 0
          (100 - (if protocol u = ''https:'' then 0 else 30)
               - (if isDomainSuspicious (hostname u) then 20 else 0)
               - (if length s > 200 then 10 else 0)
               - (if hasPhishingPattern s then 25 else 0)
               - (if hasMaliciousExt s then 35 else 0)
               - (if simHeaders sim then 0 else 15))
     \<and> (isDomainSuspicious (hostname u) \<longleftrightarrow>
           (\<exists>d \<in> {''bit.ly'', ''tinyurl.com'', ''t.co'', ''goo.gl'', ''localhost'',
                   ''127.0.0.1''}.
              \<exists>a b. hostname u = a @ d @ b))"
proof -
  let ?cs = "fst (scanChecks newURL sim s)"
  have n: "map name ?cs ! 1 = ''Domain Reputation''"
    unfolding scanChecks_names [of newURL s u sim, OF assms] by simp
  have c: "map cstatus ?cs ! 1 = (if isDomainSuspicious (hostname u) then Warning else Pass)"
    unfolding scanChecks_cstatus [of newURL s u sim, OF assms] by simp
  have "length (map name ?cs) = 7"
    unfolding scanChecks_names [of newURL s u sim, OF assms] by simp
  then have l: "1 < length ?cs" by simp
  from n c l have nc: "name (?cs ! 1) = ''Domain Reputation''"
    "cstatus (?cs ! 1) = (if isDomainSuspicious (hostname u) then Warning else Pass)"
    by simp_all
  have d: "isDomainSuspicious (hostname u) \<longleftrightarrow>
           (\<exists>d \<in> {''bit.ly'', ''tinyurl.com'', ''t.co'', ''goo.gl'', ''localhost'',
                   ''127.0.0.1''}.
              \<exists>a b. hostname u = a @ d @ b)"
    by (simp add: isDomainSuspicious_def suspiciousDomains_def includes_str_iff)
  have sc: "snd (scanChecks newURL sim s) =
      100 - (if protocol u = ''https:'' then 0 else 30)
               - (if isDomainSuspicious (hostname u) then 20 else 0)
               - (if length s > 200 then 10 else 0)
               - (if hasPhishingPattern s then 25 else 0)
               - (if hasMaliciousExt s then 35 else 0)
               - (if simHeaders sim then 0 else 15)"
    by (rule scanChecks_score [of newURL s u sim, OF assms])
  have ret: "performComprehensiveScan newURL sim now s =
     Inr \<lparr>url = s,
          status = (if snd (scanChecks newURL sim s) \<ge> 80 then Safe
                    else if snd (scanChecks newURL sim s) \<ge> 50 then Suspicious
                    else Unsafe),
          score = max 0 (snd (scanChecks newURL sim s)),
          checks = ?cs,
          metadata = \<lparr>responseTime = simResponseTime sim, domain = hostname u,
                      mprotocol = protocol u, mport = port u,
                      redirects = simRedirects sim\<rparr>,
          timestamp = now\<rparr>"
    by (rule scan_returns [of newURL s u sim now, OF assms])
  show ?thesis
  proof (intro exI conjI)
    show "performComprehensiveScan newURL sim now s = Inr \<lparr>url = s,
          status = (if snd (scanChecks newURL sim s) \<ge> 80 then Safe
                    else if snd (scanChecks newURL sim s) \<ge> 50 then Suspicious
                    else Unsafe),
          score = max 0 (snd (scanChecks newURL sim s)),
          checks = ?cs,
          metadata = \<lparr>responseTime = simResponseTime sim, domain = hostname u,
                      mprotocol = protocol u, mport = port u,
                      redirects = simRedirects sim\<rparr>,
          timestamp = now\<rparr>"
      by (rule ret)
  qed (simp_all only: ScanResult.simps nc sc d)
qed

theorem domain_reputation_rule_witness:
  "urlSamples ''http://bit.ly/abc'' =
      Some \<lparr>hostname = ''bit.ly'', protocol = ''http:'', port = None\<rparr>
   \<and> (\<exists>r. performComprehensiveScan urlSamples
           \<lparr>simHeaders = True, simResponseTime = 200, simRedirects = 0\<rparr> 0
           ''http://bit.ly/abc'' = Inr r
         \<and> name (checks r ! 1) = ''Domain Reputation''
         \<and> cstatus (checks r ! 1) = Warning
         \<and> score r = 50)"
proof -
  from domain_reputation_rule [of urlSamples "''http://bit.ly/abc''"
      "\<lparr>hostname = ''bit.ly'', protocol = ''http:'', port = None\<rparr>"
      "\<lparr>simHeaders = True, simResponseTime = 200, simRedirects = 0\<rparr>" 0, OF samples_bitly]
  obtain r where "performComprehensiveScan urlSamples
           \<lparr>simHeaders = True, simResponseTime = 200, simRedirects = 0\<rparr> 0
           ''http://bit.ly/abc'' = Inr r" "name (checks r ! 1) = ''Domain Reputation''"
     "cstatus (checks r ! 1) = Warning" "score r = 50"
    using flags_bitly by auto
  with samples_bitly show ?thesis by blast
qed

subsection \<open>The history is bounded\<close>




















subsection \<open>Adding a dangerous extension\<close>

text \<open>
  Inserting \<open>d # e\<close> into a string creates no new occurrence of a pattern \<open>p\<close> when \<open>d\<close>
  does not occur in \<open>p\<close>, \<open>p\<close> does not fit into \<open>e\<close>, and no non-empty end of \<open>e\<close> begins \<open>p\<close>.
\<close>

lemma no_new_occurrence:
  assumes occ: "sublist p (X @ (d # e) @ Y)"
    and d: "d \<notin> set p"
    and short: "\<not> sublist p e"
    and ov: "\<And>p1. p1 \<noteq> [] \<Longrightarrow> suffix p1 e \<Longrightarrow> \<not> prefix p1 p"
  shows "sublist p (X @ Y)"
proof -
  from occ consider (left) "sublist p X" | (right) "sublist p (d # e @ Y)"
    | (straddle) p1 p2 where "p = p1 @ p2" "suffix p1 X" "prefix p2 (d # e @ Y)"
    by (auto simp: sublist_append)
  then show ?thesis
  proof cases
    case left
    then show ?thesis by (simp add: sublist_append)
  next
    case straddle
    from straddle(3) d straddle(1) have "p2 = []"
      by (cases p2) (auto simp: prefix_Cons)
    with straddle have "suffix p X" by simp
    then have "sublist p X" by (rule suffix_imp_sublist)
    then show ?thesis by (simp add: sublist_append)
  next
    case right
    then have "prefix p (d # e @ Y) \<or> sublist p (e @ Y)"
      by (simp add: sublist_Cons_right)
    then show ?thesis
    proof
      assume pr: "prefix p (d # e @ Y)"
      with d have "p = []" by (cases p) (auto simp: prefix_Cons)
      then show ?thesis by simp
    next
      assume "sublist p (e @ Y)"
      then consider (inside) "sublist p e" | (after) "sublist p Y"
        | (overlap) p1 p2 where "p = p1 @ p2" "suffix p1 e" "prefix p2 Y"
        by (auto simp: sublist_append)
      then show ?thesis
      proof cases
        case inside
        with short show ?thesis by simp
      next
        case after
        then show ?thesis by (simp add: sublist_append)
      next
        case overlap
        show ?thesis
        proof (cases "p1 = []")
          case True
          with overlap have "prefix p Y" by simp
          then have "sublist p Y" by (rule prefix_imp_sublist)
          then show ?thesis by (simp add: sublist_append)
        next
          case False
          from ov [OF False overlap(2)] overlap(1) show ?thesis by simp
        qed
      qed
    qed
  qed
qed

text \<open>Every extension of the table is a dot and three letters that meet these conditions
  for every phishing pattern.\<close>

lemma phishing_vs_extension:
  assumes "p \<in> set phishingPatterns" and "e \<in> set maliciousExtensions"
  shows "\<exists>e'. e = CHR ''.'' # e' \<and> CHR ''.'' \<notin> set p \<and> \<not> sublist p e'
          \<and> (\<forall>p1. p1 \<noteq> [] \<longrightarrow> suffix p1 e' \<longrightarrow> \<not> prefix p1 p)"
  using assms
  by (auto simp: phishingPatterns_def maliciousExtensions_def suffix_Cons sublist_Cons_right)

lemma lower_extension_kept:
  assumes "toLowerCase ext \<in> set maliciousExtensions"
  shows "hasMaliciousExt (xs @ ext @ ys)"
proof -
  have "includes_str (toLowerCase (xs @ ext @ ys)) (toLowerCase ext)"
    unfolding includes_str_iff toLowerCase_def by auto
  with assms show ?thesis
    unfolding hasMaliciousExt_def list_ex_iff by blast
qed

lemma no_new_phishing:
  assumes e: "toLowerCase ext \<in> set maliciousExtensions"
    and clean: "\<not> hasPhishingPattern (xs @ ys)"
  shows "\<not> hasPhishingPattern (xs @ ext @ ys)"
proof
  assume "hasPhishingPattern (xs @ ext @ ys)"
  then obtain p where p: "p \<in> set phishingPatterns"
    and occ: "sublist p (toLowerCase xs @ toLowerCase ext @ toLowerCase ys)"
    unfolding hasPhishingPattern_def list_ex_iff includes_str_sublist toLowerCase_def
    by auto
  from phishing_vs_extension [OF p e] obtain e' where e': "toLowerCase ext = CHR ''.'' # e'"
    and d: "CHR ''.'' \<notin> set p" and short: "\<not> sublist p e'"
    and ov: "\<And>p1. p1 \<noteq> [] \<Longrightarrow> suffix p1 e' \<Longrightarrow> \<not> prefix p1 p"
    by blast
  from occ have "sublist p (toLowerCase xs @ (CHR ''.'' # e') @ toLowerCase ys)"
    unfolding e' by simp
  then have "sublist p (toLowerCase xs @ toLowerCase ys)"
    using d short ov by (rule no_new_occurrence)
  then have "includes_str (toLowerCase (xs @ ys)) p"
    unfolding includes_str_sublist toLowerCase_def by simp
  with p have "hasPhishingPattern (xs @ ys)"
    unfolding hasPhishingPattern_def list_ex_iff by blast
  with clean show False by simp
qed

text \<open>
  Claim C7: adding a dangerous-extension substring to an otherwise clean parseable URL
  lowers the returned score by exactly 35, the Security Headers rule held constant. The
  URL is clean before the addition: it parses with the scheme https and a host free of
  denylist substrings, and it has no phishing keyword and no dangerous extension. The
  added string is one of \<^verbatim>\<open>.exe\<close>, \<^verbatim>\<open>.scr\<close>, \<^verbatim>\<open>.bat\<close>, \<^verbatim>\<open>.cmd\<close>, \<^verbatim>\<open>.pif\<close> up to the case of its
  letters, put anywhere. The URL is otherwise clean after the addition: it still parses
  with the scheme https and a host free of denylist substrings, and its length is at most
  200; that it has no phishing keyword is proved, not assumed. Then both scans return,
  and the new score is the old score less 35.
\<close>

theorem dangerous_extension_costs_35:
  assumes "newURL (xs @ ys) = Some u"
    and "newURL (xs @ ext @ ys) = Some u'"
    and "toLowerCase ext \<in> set maliciousExtensions"
    and "protocol u = ''https:''" and "protocol u' = ''https:''"
    and "\<not> isDomainSuspicious (hostname u)" and "\<not> isDomainSuspicious (hostname u')"
    and "length (xs @ ext @ ys) \<le> 200"
    and "\<not> hasPhishingPattern (xs @ ys)"
    and "\<not> hasMaliciousExt (xs @ ys)"
    and "simHeaders sim = simHeaders sim'"
  shows "\<exists>r r'. performComprehensiveScan newURL sim now (xs @ ys) = Inr r
           \<and> performComprehensiveScan newURL sim' now' (xs @ ext @ ys) = Inr r'
           \<and> score r' = score r - 35 \<and> score r' < score r"
proof -
  have ph: "\<not> hasPhishingPattern (xs @ ext @ ys)"
    using assms(3) assms(9) by (rule no_new_phishing)
  have ex: "hasMaliciousExt (xs @ ext @ ys)"
    using assms(3) by (rule lower_extension_kept)
  from assms(8) have len: "\<not> length (xs @ ys) > 200" "\<not> length (xs @ ext @ ys) > 200"
    by simp_all
  have s: "snd (scanChecks newURL sim (xs @ ys)) = 100 - (if simHeaders sim then 0 else 15)"
    unfolding scanChecks_score [of newURL "xs @ ys" u sim, OF assms(1)]
    using assms(4) assms(6) len(1) assms(9) assms(10) by simp
  have s': "snd (scanChecks newURL sim' (xs @ ext @ ys)) =
      100 - 35 - (if simHeaders sim then 0 else 15)"
    unfolding scanChecks_score [of newURL "xs @ ext @ ys" u' sim', OF assms(2)]
    using assms(5) assms(7) len(2) ph ex assms(11) by simp
  show ?thesis
    unfolding scan_returns [of newURL "xs @ ys" u sim now, OF assms(1)]
      scan_returns [of newURL "xs @ ext @ ys" u' sim' now', OF assms(2)] s s'
    by simp
qed

theorem dangerous_extension_costs_35_witness:
  "urlSamples ''https://example.com/setup'' =
      Some \<lparr>hostname = ''example.com'', protocol = ''https:'', port = None\<rparr>
   \<and> urlSamples ''https://example.com/setup.EXE'' =
      Some \<lparr>hostname = ''example.com'', protocol = ''https:'', port = None\<rparr>
   \<and> toLowerCase ''.EXE'' \<in> set maliciousExtensions
   \<and> \<not> isDomainSuspicious ''example.com''
   \<and> length ''https://example.com/setup.EXE'' \<le> 200
   \<and> \<not> hasPhishingPattern ''https://example.com/setup''
   \<and> \<not> hasMaliciousExt ''https://example.com/setup''
   \<and> (\<exists>r r'. performComprehensiveScan urlSamples
           \<lparr>simHeaders = True, simResponseTime = 200, simRedirects = 0\<rparr> 0
           ''https://example.com/setup'' = Inr r
         \<and> performComprehensiveScan urlSamples
           \<lparr>simHeaders = True, simResponseTime = 850, simRedirects = 1\<rparr> 7
           ''https://example.com/setup.EXE'' = Inr r'
         \<and> score r' = score r - 35 \<and> score r' < score r)"
proof -
  have e: "toLowerCase ''.EXE'' \<in> set maliciousExtensions"
    unfolding lower_EXE by (simp add: maliciousExtensions_def)
  have "\<exists>r r'. performComprehensiveScan urlSamples
           \<lparr>simHeaders = True, simResponseTime = 200, simRedirects = 0\<rparr> 0
           (''https://example.com/setup'' @ []) = Inr r
         \<and> performComprehensiveScan urlSamples
           \<lparr>simHeaders = True, simResponseTime = 850, simRedirects = 1\<rparr> 7
           (''https://example.com/setup'' @ ''.EXE'' @ []) = Inr r'
         \<and> score r' = score r - 35 \<and> score r' < score r"
    by (rule dangerous_extension_costs_35
        [of urlSamples "''https://example.com/setup''" "[]"
          "\<lparr>hostname = ''example.com'', protocol = ''https:'', port = None\<rparr>" "''.EXE''"
          "\<lparr>hostname = ''example.com'', protocol = ''https:'', port = None\<rparr>"])
      (simp_all add: samples_setup e clean_example(1) clean_setup)
  then have "\<exists>r r'. performComprehensiveScan urlSamples
           \<lparr>simHeaders = True, simResponseTime = 200, simRedirects = 0\<rparr> 0
           ''https://example.com/setup'' = Inr r
         \<and> performComprehensiveScan urlSamples
           \<lparr>simHeaders = True, simResponseTime = 850, simRedirects = 1\<rparr> 7
           ''https://example.com/setup.EXE'' = Inr r'
         \<and> score r' = score r - 35 \<and> score r' < score r"
    by simp
  with samples_setup e clean_example(1) clean_setup show ?thesis by simp
qed

end
